theory Spec2Isabelle
  imports Main
begin

section \<open>Python values and exceptions\<close>

text \<open>
  The part of Python's value universe that the validators and the action classes handle.
  A float is kept symbolic, as the argument of the conversion that produced it: no
  floating-point arithmetic is modelled. A CavePlacement is a dict subclass (a
  CaveFeature), kept as its key/value pairs.
\<close>

datatype pytype = TNoneType | TBool | TInt | TFloat | TStr | TTuple | TList | TType
  | TObject | TCavePlacement

datatype pyfloat = FloatOfInt int | FloatOfStr string

datatype pyval = PNone | PBool bool | PInt int | PFloat pyfloat | PStr string
  | PTuple "pyval list" | PList "pyval list" | PType pytype
  | PPlacement "(string \<times> pyval) list"

text \<open>
  The exceptions of \<^verbatim>\<open>errors.py\<close> carry their message as the format string and
  the arguments handed to \<^verbatim>\<open>str.format\<close>; Python's own exceptions carry none
  (KeyError carries the key).
\<close>

datatype error = InvalidArgument string "pyval list" | BadCaveXML string "pyval list"
  | ConsistencyError string | KeyError pyval | TypeError | ValueError | AttributeError
  | IndexError | OverflowError | NotImplementedError

fun is_KeyError :: "error \<Rightarrow> bool" where
  "is_KeyError (KeyError k) = True"
| "is_KeyError e = False"

fun is_TypeError :: "error \<Rightarrow> bool" where
  "is_TypeError TypeError = True"
| "is_TypeError e = False"

fun is_InvalidArgument :: "error \<Rightarrow> bool" where
  "is_InvalidArgument (InvalidArgument m a) = True"
| "is_InvalidArgument e = False"

text \<open>Sequencing of computations that may raise; \<open>try_except\<close> is
  \<^verbatim>\<open>try: m  except <exc>: h\<close>.\<close>

definition bindE :: "error + 'a \<Rightarrow> ('a \<Rightarrow> error + 'b) \<Rightarrow> error + 'b" where
  "bindE m f = (case m of Inl e \<Rightarrow> Inl e | Inr x \<Rightarrow> f x)"

definition try_except :: "(error + 'a) \<Rightarrow> (error \<Rightarrow> bool) \<Rightarrow> (error + 'a) \<Rightarrow> error + 'a" where
  "try_except m exc h = (case m of Inl e \<Rightarrow> (if exc e then h else Inl e) | Inr x \<Rightarrow> Inr x)"

subsection \<open>Built-ins: type(), iteration, len(), hash(), isinstance()\<close>

fun type_of :: "pyval \<Rightarrow> pytype" where
  "type_of PNone = TNoneType"
| "type_of (PBool b) = TBool"
| "type_of (PInt n) = TInt"
| "type_of (PFloat f) = TFloat"
| "type_of (PStr s) = TStr"
| "type_of (PTuple xs) = TTuple"
| "type_of (PList xs) = TList"
| "type_of (PType t) = TType"
| "type_of (PPlacement kvs) = TCavePlacement"

text \<open>\<^verbatim>\<open>for value in iterable\<close>: the elements, or TypeError for a value that is not
  iterable. A string yields its characters, a dict subclass its keys.\<close>

fun py_iter :: "pyval \<Rightarrow> error + pyval list" where
  "py_iter (PStr s) = Inr (map (\<lambda>c. PStr [c]) s)"
| "py_iter (PTuple xs) = Inr xs"
| "py_iter (PList xs) = Inr xs"
| "py_iter (PPlacement kvs) = Inr (map (\<lambda>kv. PStr (fst kv)) kvs)"
| "py_iter v = Inl TypeError"

fun py_len :: "pyval \<Rightarrow> error + int" where
  "py_len (PStr s) = Inr (int (length s))"
| "py_len (PTuple xs) = Inr (int (length xs))"
| "py_len (PList xs) = Inr (int (length xs))"
| "py_len (PPlacement kvs) = Inr (int (length kvs))"
| "py_len v = Inl TypeError"

text \<open>Lists and dicts are unhashable, a tuple is hashable when its elements are.\<close>

fun hashable :: "pyval \<Rightarrow> bool" where
  "hashable (PList xs) = False"
| "hashable (PPlacement kvs) = False"
| "hashable (PTuple xs) = list_all hashable xs"
| "hashable v = True"

text \<open>\<^verbatim>\<open>issubclass\<close> on the modelled types: every type is a subclass of itself and of
  \<^verbatim>\<open>object\<close>, \<^verbatim>\<open>bool\<close> of \<^verbatim>\<open>int\<close>.\<close>

definition is_subclass :: "pytype \<Rightarrow> pytype \<Rightarrow> bool" where
  "is_subclass a b = (a = b \<or> b = TObject \<or> (a = TBool \<and> b = TInt))"

text \<open>\<^verbatim>\<open>isinstance(obj, classinfo)\<close>: classinfo must be a type or a tuple of such,
  searched left to right; anything else raises TypeError.\<close>

fun py_isinstance :: "pyval \<Rightarrow> pyval \<Rightarrow> error + bool"
  and isinstance_any :: "pyval \<Rightarrow> pyval list \<Rightarrow> error + bool" where
  "py_isinstance obj (PType t) = Inr (is_subclass (type_of obj) t)"
| "py_isinstance obj (PTuple cs) = isinstance_any obj cs"
| "py_isinstance obj PNone = Inl TypeError"
| "py_isinstance obj (PBool b) = Inl TypeError"
| "py_isinstance obj (PInt n) = Inl TypeError"
| "py_isinstance obj (PFloat f) = Inl TypeError"
| "py_isinstance obj (PStr s) = Inl TypeError"
| "py_isinstance obj (PList xs) = Inl TypeError"
| "py_isinstance obj (PPlacement kvs) = Inl TypeError"
| "isinstance_any obj [] = Inr False"
| "isinstance_any obj (c # cs) =
     (case py_isinstance obj c of Inl e \<Rightarrow> Inl e
      | Inr b \<Rightarrow> (if b then Inr True else isinstance_any obj cs))"

subsection \<open>Built-in: float()\<close>

text \<open>
  A character is a code point below 256. \<^verbatim>\<open>str.strip()\<close> removes the characters for
  which \<^verbatim>\<open>str.isspace\<close> holds, the separators 0x1C to 0x1F among them;
  \<^verbatim>\<open>float(str)\<close> skips fewer at both ends: the six ASCII white-space characters and
  0x85 and 0xA0, not the separators.
\<close>

definition is_space :: "char \<Rightarrow> bool" where
  "is_space c = (c \<in> set [CHR '' '', CHR 0x09, CHR 0x0A, CHR 0x0B, CHR 0x0C, CHR 0x0D,
     CHR 0x1C, CHR 0x1D, CHR 0x1E, CHR 0x1F, CHR 0x85, CHR 0xA0])"

definition py_strip :: "string \<Rightarrow> string" where
  "py_strip s = rev (dropWhile is_space (rev (dropWhile is_space s)))"

definition is_float_space :: "char \<Rightarrow> bool" where
  "is_float_space c = (c \<in> set [CHR '' '', CHR 0x09, CHR 0x0A, CHR 0x0B, CHR 0x0C, CHR 0x0D,
     CHR 0x85, CHR 0xA0])"

definition float_strip :: "string \<Rightarrow> string" where
  "float_strip s = rev (dropWhile is_float_space (rev (dropWhile is_float_space s)))"

text \<open>
  The text that \<^verbatim>\<open>float(str)\<close> accepts between the white space it skips: an optional
  sign, then \<^verbatim>\<open>inf\<close>, \<^verbatim>\<open>infinity\<close> or \<^verbatim>\<open>nan\<close> in any case, or a decimal number with
  an optional fraction and exponent, digits optionally separated by single underscores.
\<close>

definition is_digit :: "char \<Rightarrow> bool" where
  "is_digit c = (c \<in> set ''0123456789'')"

fun digits_tail :: "string \<Rightarrow> string" where
  "digits_tail [] = []"
| "digits_tail [c] = (if is_digit c then [] else [c])"
| "digits_tail (c # d # cs) =
     (if is_digit c then digits_tail (d # cs)
      else if c = CHR ''_'' \<and> is_digit d then digits_tail cs
      else c # d # cs)"

definition digitpart :: "string \<Rightarrow> string option" where
  "digitpart s = (case s of [] \<Rightarrow> None
     | c # cs \<Rightarrow> if is_digit c then Some (digits_tail cs) else None)"

definition drop_sign :: "string \<Rightarrow> string" where
  "drop_sign s = (case s of [] \<Rightarrow> []
     | c # cs \<Rightarrow> if c = CHR ''+'' \<or> c = CHR ''-'' then cs else c # cs)"

definition number_part :: "string \<Rightarrow> string option" where
  "number_part s =
     (case digitpart s of
        Some r \<Rightarrow>
          (case r of [] \<Rightarrow> Some []
           | c # r' \<Rightarrow>
               if c = CHR ''.'' then (case digitpart r' of Some r'' \<Rightarrow> Some r'' | None \<Rightarrow> Some r')
               else Some r)
      | None \<Rightarrow>
          (case s of [] \<Rightarrow> None
           | c # r' \<Rightarrow> if c = CHR ''.'' then digitpart r' else None))"

definition exponent_part :: "string \<Rightarrow> string option" where
  "exponent_part s = (case s of [] \<Rightarrow> None
     | c # cs \<Rightarrow> if c = CHR ''e'' \<or> c = CHR ''E'' then digitpart (drop_sign cs) else None)"

definition floatnumber :: "string \<Rightarrow> bool" where
  "floatnumber s = (case number_part s of None \<Rightarrow> False
     | Some r \<Rightarrow> r = [] \<or> exponent_part r = Some [])"

fun ci_match :: "string \<Rightarrow> (char \<times> char) list \<Rightarrow> bool" where
  "ci_match [] [] = True"
| "ci_match (c # cs) ((l, u) # ps) = ((c = l \<or> c = u) \<and> ci_match cs ps)"
| "ci_match cs ps = False"

definition is_float_literal :: "string \<Rightarrow> bool" where
  "is_float_literal s =
     (let t = drop_sign (float_strip s) in
      floatnumber t
      \<or> ci_match t (zip ''inf'' ''INF'')
      \<or> ci_match t (zip ''infinity'' ''INFINITY'')
      \<or> ci_match t (zip ''nan'' ''NAN''))"

text \<open>
  \<^verbatim>\<open>float(value)\<close>: a number converts (an int that rounds beyond the largest double,
  so of magnitude at least \<open>2^1024 - 2^970\<close>, raises OverflowError), a string converts
  when it is a float literal and raises ValueError otherwise, every other modelled value
  raises TypeError.
\<close>

definition float_overflow_bound :: int where
  "float_overflow_bound = 2 ^ 1024 - 2 ^ 970"

fun py_float :: "pyval \<Rightarrow> error + pyfloat" where
  "py_float (PBool b) = Inr (FloatOfInt (if b then 1 else 0))"
| "py_float (PInt n) = (if \<bar>n\<bar> < float_overflow_bound then Inr (FloatOfInt n) else Inl OverflowError)"
| "py_float (PFloat f) = Inr f"
| "py_float (PStr s) = (if is_float_literal s then Inr (FloatOfStr s) else Inl ValueError)"
| "py_float v = Inl TypeError"

section \<open>validators.py\<close>

text \<open>A validator object is its class and the attributes its constructor stored.\<close>

datatype validator = OptionListValidator "string list" | IsNumeric
  | IsNumericIterable "int option" | CheckType pyval | AlwaysValid string

text \<open>
  \<^verbatim>\<open>IsNumeric.__init__(self)\<close> takes no argument besides \<^verbatim>\<open>self\<close>: a call of the
  class with any positional or keyword argument raises TypeError.
\<close>

definition IsNumeric_init :: "pyval list \<Rightarrow> (string \<times> pyval) list \<Rightarrow> error + validator" where
  "IsNumeric_init args kwargs = (if args = [] \<and> kwargs = [] then Inr IsNumeric else Inl TypeError)"

text \<open>\<^verbatim>\<open>OptionListValidator.__call__\<close>: membership in a set of strings hashes the value
  first.\<close>

definition OptionListValidator_call :: "string list \<Rightarrow> pyval \<Rightarrow> error + bool" where
  "OptionListValidator_call valid_options v =
     (if \<not> hashable v then Inl TypeError
      else Inr (case v of PStr s \<Rightarrow> s \<in> set valid_options | _ \<Rightarrow> False))"

text \<open>\<^verbatim>\<open>IsNumeric.__call__\<close>: only TypeError is caught.\<close>

definition IsNumeric_call :: "pyval \<Rightarrow> error + bool" where
  "IsNumeric_call v =
     try_except (bindE (py_float v) (\<lambda>f. Inr True)) is_TypeError (Inr False)"

text \<open>
  \<^verbatim>\<open>IsNumericIterable.__call__\<close>. The loop body evaluates \<^verbatim>\<open>IsNumeric(value)\<close>, a
  call of the class with one positional argument, and tests the truth of the object it
  gives; a validator class defines neither \<^verbatim>\<open>__bool__\<close> nor \<^verbatim>\<open>__len__\<close>, so its
  objects are true. The loop gives \<open>Some b\<close> when it returned \<open>b\<close> and \<open>None\<close>
  when it ran to its end.
\<close>

definition object_truth :: "validator \<Rightarrow> bool" where
  "object_truth obj = True"

fun numeric_loop :: "pyval list \<Rightarrow> error + bool option" where
  "numeric_loop [] = Inr None"
| "numeric_loop (v # vs) =
     bindE (IsNumeric_init [v] []) (\<lambda>obj. if \<not> object_truth obj then Inr (Some False) else numeric_loop vs)"

definition IsNumericIterable_call :: "int option \<Rightarrow> pyval \<Rightarrow> error + bool" where
  "IsNumericIterable_call required_length iterable =
     try_except
       (bindE (py_iter iterable) (\<lambda>vs.
        bindE (numeric_loop vs) (\<lambda>r.
          case r of Some b \<Rightarrow> Inr b
          | None \<Rightarrow>
              (case required_length of None \<Rightarrow> Inr True
               | Some n \<Rightarrow> bindE (py_len iterable) (\<lambda>l. Inr (l = n))))))
       is_TypeError (Inr False)"

text \<open>\<^verbatim>\<open>CheckType.__call__\<close> is \<^verbatim>\<open>isinstance(self.correct_type, value)\<close>, with the
  arguments in this order.\<close>

definition CheckType_call :: "pyval \<Rightarrow> pyval \<Rightarrow> error + bool" where
  "CheckType_call correct_type v = py_isinstance correct_type v"

definition AlwaysValid_call :: "pyval \<Rightarrow> error + bool" where
  "AlwaysValid_call v = Inr True"

fun validator_call :: "validator \<Rightarrow> pyval \<Rightarrow> error + bool" where
  "validator_call (OptionListValidator valid_options) v = OptionListValidator_call valid_options v"
| "validator_call IsNumeric v = IsNumeric_call v"
| "validator_call (IsNumericIterable required_length) v = IsNumericIterable_call required_length v"
| "validator_call (CheckType correct_type) v = CheckType_call correct_type v"
| "validator_call (AlwaysValid help_string) v = AlwaysValid_call v"

section \<open>features.py\<close>

text \<open>
  A class is its name and its two tables; a feature is a dict together with its class,
  through which \<^verbatim>\<open>self.argument_validators\<close> and \<^verbatim>\<open>self.default_arguments\<close>
  are found. Keys are attribute names, so strings.
\<close>

record pyclass =
  class_name :: string
  argument_validators :: "string \<rightharpoonup> validator"
  default_arguments :: "string \<rightharpoonup> pyval"

record feature =
  feature_class :: pyclass
  entries :: "string \<rightharpoonup> pyval"

text \<open>
  \<^verbatim>\<open>W3DFeature.__setitem__\<close> mutates the dict: the model returns what the call did
  (\<open>Inr ()\<close> for a normal return, \<open>Inl\<close> the exception raised) and the feature
  as it is afterwards. An exception of the validator itself passes through.
\<close>

definition W3DFeature_setitem :: "feature \<Rightarrow> string \<Rightarrow> pyval \<Rightarrow> (error + unit) \<times> feature" where
  "W3DFeature_setitem self key val =
     (case argument_validators (feature_class self) key of
        None \<Rightarrow> (Inl (InvalidArgument ''{} not a valid option for this W3D feature'' [PStr key]), self)
      | Some validator \<Rightarrow>
          (case validator_call validator val of
             Inl e \<Rightarrow> (Inl e, self)
           | Inr ok \<Rightarrow>
               if \<not> ok
               then (Inl (InvalidArgument ''{} is not a valid value for option {}'' [val, PStr key]), self)
               else (Inr (), self\<lparr>entries := (entries self)(key \<mapsto> val)\<rparr>)))"

text \<open>\<^verbatim>\<open>W3DFeature.__missing__\<close>, and \<^verbatim>\<open>self[key]\<close>: dict lookup, which calls
  \<^verbatim>\<open>__missing__\<close> for an absent key.\<close>

definition W3DFeature_missing :: "feature \<Rightarrow> string \<Rightarrow> error + pyval" where
  "W3DFeature_missing self key =
     (case default_arguments (feature_class self) key of
        None \<Rightarrow> Inl (KeyError (PStr key)) | Some d \<Rightarrow> Inr d)"

definition W3DFeature_getitem :: "feature \<Rightarrow> string \<Rightarrow> error + pyval" where
  "W3DFeature_getitem self key =
     (case entries self key of None \<Rightarrow> W3DFeature_missing self key | Some v \<Rightarrow> Inr v)"

text \<open>\<^verbatim>\<open>dict.get(key, default)\<close>, which does not call \<^verbatim>\<open>__missing__\<close>, and
  \<^verbatim>\<open>key in self\<close>.\<close>

definition dict_get :: "feature \<Rightarrow> string \<Rightarrow> pyval \<Rightarrow> pyval" where
  "dict_get self key d = (case entries self key of None \<Rightarrow> d | Some v \<Rightarrow> v)"

definition contains :: "feature \<Rightarrow> string \<Rightarrow> bool" where
  "contains self key = (entries self key \<noteq> None)"

definition is_default :: "feature \<Rightarrow> string \<Rightarrow> bool" where
  "is_default self key = (\<not> contains self key \<and> default_arguments (feature_class self) key \<noteq> None)"

text \<open>\<^verbatim>\<open>W3DFeature.update\<close>: the pairs before the first failure stay written.\<close>

fun W3DFeature_update :: "feature \<Rightarrow> (string \<times> pyval) list \<Rightarrow> (error + unit) \<times> feature" where
  "W3DFeature_update self [] = (Inr (), self)"
| "W3DFeature_update self ((key, val) # other) =
     (case W3DFeature_setitem self key val of
        (Inl e, self') \<Rightarrow> (Inl e, self')
      | (Inr u, self') \<Rightarrow> W3DFeature_update self' other)"

text \<open>
  \<^verbatim>\<open>W3DFeature.__init__\<close>, called as \<^verbatim>\<open>cls(*args, **kwargs)\<close>: an empty dict, then
  the two updates. When one raises, the object under construction is lost with it.
  (The attribute \<^verbatim>\<open>ui_order\<close> set at the end is not part of the dict.)
\<close>

definition W3DFeature_init :: "pyclass \<Rightarrow> (string \<times> pyval) list \<Rightarrow> (string \<times> pyval) list \<Rightarrow> error + feature" where
  "W3DFeature_init c args kwargs =
     (case W3DFeature_update \<lparr>feature_class = c, entries = Map.empty\<rparr> args of
        (Inl e, self) \<Rightarrow> Inl e
      | (Inr u, self) \<Rightarrow>
          (case W3DFeature_update self kwargs of
             (Inl e, self') \<Rightarrow> Inl e
           | (Inr u', self') \<Rightarrow> Inr self'))"

text \<open>
  \<^verbatim>\<open>new_action[key] = value\<close> on an object local to the running method: the updated
  object, or the exception. (Where the exception is caught and the method goes on, the
  object is the one before the assignment: a raising \<^verbatim>\<open>__setitem__\<close> writes nothing.)
\<close>

definition assign :: "feature \<Rightarrow> string \<Rightarrow> pyval \<Rightarrow> error + feature" where
  "assign self key val =
     (case W3DFeature_setitem self key val of (Inl e, self') \<Rightarrow> Inl e | (Inr u, self') \<Rightarrow> Inr self')"

section \<open>ElementTree nodes and the collaborators of actions.py\<close>

text \<open>
  An element: tag, attribute dict (in memory its values are whatever was stored, strings
  only after parsing), text (\<open>PNone\<close> when absent) and children.
\<close>

datatype xml = Element (tag: string) (attrib: "(string \<times> pyval) list") (node_text: pyval)
  (children: "xml list")

definition xml_find :: "xml \<Rightarrow> string \<Rightarrow> xml option" where
  "xml_find node t = List.find (\<lambda>c. tag c = t) (children node)"

definition attrib_getitem :: "xml \<Rightarrow> string \<Rightarrow> error + pyval" where
  "attrib_getitem node key =
     (case map_of (attrib node) key of None \<Rightarrow> Inl (KeyError (PStr key)) | Some v \<Rightarrow> Inr v)"

definition attrib_contains :: "xml \<Rightarrow> string \<Rightarrow> bool" where
  "attrib_contains node key = (map_of (attrib node) key \<noteq> None)"

definition append_child :: "xml \<Rightarrow> xml \<Rightarrow> xml" where
  "append_child parent node = Element (tag parent) (attrib parent) (node_text parent) (children parent @ [node])"

text \<open>\<^verbatim>\<open>node.text.strip()\<close>: only a string has the method.\<close>

definition text_strip :: "xml \<Rightarrow> error + pyval" where
  "text_strip node = (case node_text node of PStr s \<Rightarrow> Inr (PStr (py_strip s)) | _ \<Rightarrow> Inl AttributeError)"

text \<open>
  What actions.py uses and this repository's sources do not hold is a parameter:
  the three functions of \<^verbatim>\<open>xml_tools\<close> (\<^verbatim>\<open>text2tuple\<close> as called, with
  \<^verbatim>\<open>evaluator=int\<close>), the two methods of \<^verbatim>\<open>CavePlacement\<close> (\<^verbatim>\<open>toXML\<close> returns
  the node it was given with what it appended), and of Python \<^verbatim>\<open>str()\<close> and the truth
  value of a float.
\<close>

record env =
  bool2text :: "pyval \<Rightarrow> error + pyval"
  text2bool :: "pyval \<Rightarrow> error + pyval"
  text2tuple_int :: "pyval \<Rightarrow> error + pyval"
  CavePlacement_toXML :: "pyval \<Rightarrow> xml \<Rightarrow> error + xml"
  CavePlacement_fromXML :: "xml \<Rightarrow> error + pyval"
  py_str :: "pyval \<Rightarrow> string"
  float_truth :: "pyfloat \<Rightarrow> bool"

fun truthy :: "env \<Rightarrow> pyval \<Rightarrow> bool" where
  "truthy E PNone = False"
| "truthy E (PBool b) = b"
| "truthy E (PInt n) = (n \<noteq> 0)"
| "truthy E (PFloat f) = float_truth E f"
| "truthy E (PStr s) = (s \<noteq> [])"
| "truthy E (PTuple xs) = (xs \<noteq> [])"
| "truthy E (PList xs) = (xs \<noteq> [])"
| "truthy E (PType t) = True"
| "truthy E (PPlacement kvs) = (kvs \<noteq> [])"

text \<open>\<^verbatim>\<open>table[key]\<close> on a dict with string keys.\<close>

definition table_getitem :: "(string \<times> string) list \<Rightarrow> pyval \<Rightarrow> error + string" where
  "table_getitem table key =
     (if \<not> hashable key then Inl TypeError
      else case key of
             PStr s \<Rightarrow> (case map_of table s of None \<Rightarrow> Inl (KeyError key) | Some t \<Rightarrow> Inr t)
           | _ \<Rightarrow> Inl (KeyError key))"

text \<open>\<^verbatim>\<open>for key, value in table\<close> iterates the keys of the dict; each key, a string, is
  unpacked into two targets, which only a string of two characters allows.\<close>

definition unpack_pair :: "string \<Rightarrow> error + (string \<times> string)" where
  "unpack_pair s = (case s of [a, b] \<Rightarrow> Inr ([a], [b]) | _ \<Rightarrow> Inl ValueError)"

text \<open>\<^verbatim>\<open>"{},{},{}".format(*value)\<close>: the value is iterated, three items are needed,
  further ones are ignored.\<close>

definition format3 :: "env \<Rightarrow> pyval \<Rightarrow> error + pyval" where
  "format3 E v =
     bindE (py_iter v) (\<lambda>xs.
       case xs of
         a # b # c # rest \<Rightarrow> Inr (PStr (py_str E a @ '','' @ py_str E b @ '','' @ py_str E c))
       | _ \<Rightarrow> Inl IndexError)"

section \<open>actions.py: the classes\<close>

text \<open>
  The base class that actions.py imports as \<^verbatim>\<open>CaveFeature\<close> is the feature class of
  features.py above. What a call returns: \<^verbatim>\<open>None\<close>, an instance, or a class object.
\<close>

datatype pyobj = NoneObj | Instance feature | ClassObj pyclass

definition link_xml_tags :: "(string \<times> string) list" where
  "link_xml_tags = [(''Enable'', ''link_on''), (''Disable'', ''link_off''),
     (''Activate'', ''activate''), (''Activate if enabled'', ''activate_if_on'')]"

definition change_xml_tags :: "(string \<times> string) list" where
  "change_xml_tags = [(''Start'', ''start''), (''Stop'', ''stop''), (''Continue'', ''continue''),
     (''Start if not started'', ''start_if_not_started'')]"

text \<open>
  The class statements. The tables of ObjectAction, GroupAction and MoveCaveAction hold
  the value of \<^verbatim>\<open>IsNumeric(min_value=0)\<close>; the class is written as a function of
  that value, and the class statement evaluates the calls, in the order of the dict
  display, before it binds the class.
\<close>

definition ObjectAction_class :: "validator \<Rightarrow> validator \<Rightarrow> pyclass" where
  "ObjectAction_class duration_validator scale_validator =
     \<lparr>class_name = ''ObjectAction'',
      argument_validators = map_of
        [(''object_name'', AlwaysValid ''Name of an object''),
         (''duration'', duration_validator),
         (''visible'', AlwaysValid ''Either true or false''),
         (''placement'', AlwaysValid ''A CavePlacement object''),
         (''move_relative'', AlwaysValid ''Either true or false''),
         (''color'', IsNumericIterable (Some 3)),
         (''scale'', scale_validator),
         (''sound_change'', OptionListValidator [''Play Sound'', ''Stop Sound'']),
         (''link_change'', OptionListValidator
            [''Enable'', ''Disable'', ''Activate'', ''Activate if enabled''])],
      default_arguments = map_of [(''duration'', PInt 1)]\<rparr>"

definition ObjectAction_statement :: "error + pyclass" where
  "ObjectAction_statement =
     bindE (IsNumeric_init [] [(''min_value'', PInt 0)]) (\<lambda>duration_validator.
     bindE (IsNumeric_init [] [(''min_value'', PInt 0)]) (\<lambda>scale_validator.
     Inr (ObjectAction_class duration_validator scale_validator)))"

definition GroupAction_class :: "validator \<Rightarrow> validator \<Rightarrow> pyclass" where
  "GroupAction_class duration_validator scale_validator =
     \<lparr>class_name = ''GroupAction'',
      argument_validators = map_of
        [(''group_name'', AlwaysValid ''Name of a group''),
         (''choose_random'', AlwaysValid ''Either true or false''),
         (''duration'', duration_validator),
         (''visible'', AlwaysValid ''Either true or false''),
         (''placement'', AlwaysValid ''A CavePlacement object''),
         (''move_relative'', AlwaysValid ''Either true or false''),
         (''color'', IsNumericIterable (Some 3)),
         (''scale'', scale_validator),
         (''sound_change'', OptionListValidator [''Play Sound'', ''Stop Sound'']),
         (''link_change'', OptionListValidator
            [''Enable'', ''Disable'', ''Activate'', ''Activate if enabled''])],
      default_arguments = map_of [(''duration'', PInt 1), (''choose_random'', PBool False)]\<rparr>"

definition GroupAction_statement :: "error + pyclass" where
  "GroupAction_statement =
     bindE (IsNumeric_init [] [(''min_value'', PInt 0)]) (\<lambda>duration_validator.
     bindE (IsNumeric_init [] [(''min_value'', PInt 0)]) (\<lambda>scale_validator.
     Inr (GroupAction_class duration_validator scale_validator)))"

definition TimelineAction_class :: pyclass where
  "TimelineAction_class =
     \<lparr>class_name = ''TimelineAction'',
      argument_validators = map_of
        [(''timeline_name'', AlwaysValid ''Name of a timeline''),
         (''change'', OptionListValidator
            [''Start'', ''Stop'', ''Continue'', ''Start if not started''])],
      default_arguments = Map.empty\<rparr>"

definition SoundAction_class :: pyclass where
  "SoundAction_class =
     \<lparr>class_name = ''SoundAction'',
      argument_validators = map_of
        [(''sound_name'', AlwaysValid ''Name of a sound''),
         (''change'', OptionListValidator [''Start'', ''Stop''])],
      default_arguments = map_of [(''change'', PStr ''Start'')]\<rparr>"

definition EventTriggerAction_class :: pyclass where
  "EventTriggerAction_class =
     \<lparr>class_name = ''EventTriggerAction'',
      argument_validators = map_of
        [(''trigger_name'', AlwaysValid ''Name of a trigger''),
         (''enable'', AlwaysValid ''Either true or false'')],
      default_arguments = Map.empty\<rparr>"

definition MoveCaveAction_class :: "validator \<Rightarrow> pyclass" where
  "MoveCaveAction_class duration_validator =
     \<lparr>class_name = ''MoveCaveAction'',
      argument_validators = map_of
        [(''relative'', AlwaysValid ''Either true or false''),
         (''duration'', duration_validator),
         (''placement'', AlwaysValid ''A CavePlacement object'')],
      default_arguments = map_of [(''duration'', PInt 0)]\<rparr>"

definition MoveCaveAction_statement :: "error + pyclass" where
  "MoveCaveAction_statement =
     bindE (IsNumeric_init [] [(''min_value'', PInt 0)]) (\<lambda>duration_validator.
     Inr (MoveCaveAction_class duration_validator))"

text \<open>CaveResetAction declares no table: it has the empty ones of the base class.\<close>

definition CaveResetAction_class :: pyclass where
  "CaveResetAction_class =
     \<lparr>class_name = ''CaveResetAction'', argument_validators = Map.empty,
      default_arguments = Map.empty\<rparr>"

text \<open>An instance of a class can be made once its class statement has run.\<close>

definition construct :: "error + pyclass \<Rightarrow> (string \<times> pyval) list \<Rightarrow> (string \<times> pyval) list \<Rightarrow> error + feature" where
  "construct statement args kwargs = bindE statement (\<lambda>c. W3DFeature_init c args kwargs)"

section \<open>actions.py: toXML\<close>

text \<open>
  \<^verbatim>\<open>toXML(self, parent_root)\<close> builds its node under \<open>parent_root\<close> and returns it:
  the model gives the parent with the node appended, and the node. Statements are
  evaluated in the source's order, so the exception is the first one raised; what a
  call that raises has already appended to the parent is not kept.

  \<^verbatim>\<open>ET.SubElement\<close> with an \<^verbatim>\<open>attrib\<close> that is not a dict (the Sound node is given
  the set \<^verbatim>\<open>{"action", self["sound_change"]}\<close>) raises TypeError.
\<close>

definition SubElement_nondict :: "string \<Rightarrow> pyval list \<Rightarrow> error + xml list" where
  "SubElement_nondict t attrib_set = Inl TypeError"

text \<open>The statements from \<^verbatim>\<open>if "visible" in self\<close> to the Sound node, the same
  text in ObjectAction.toXML and GroupAction.toXML: the children they append.\<close>

definition transition_parts :: "env \<Rightarrow> feature \<Rightarrow> error + xml list" where
  "transition_parts E self =
     bindE (if contains self ''visible''
            then bindE (W3DFeature_getitem self ''visible'') (\<lambda>v.
                 bindE (bool2text E v) (\<lambda>t. Inr [Element ''Visible'' [] t []]))
            else Inr []) (\<lambda>visible.
     bindE (if contains self ''placement''
            then bindE (W3DFeature_getitem self ''move_relative'') (\<lambda>rel.
                 bindE (W3DFeature_getitem self ''placement'') (\<lambda>placement.
                 bindE (CavePlacement_toXML E placement
                          (Element (if truthy E rel then ''MoveRel'' else ''Movement'') [] PNone []))
                   (\<lambda>node. Inr [node])))
            else Inr []) (\<lambda>movement.
     bindE (if contains self ''color''
            then bindE (W3DFeature_getitem self ''color'') (\<lambda>c.
                 bindE (format3 E c) (\<lambda>t. Inr [Element ''Color'' [] t []]))
            else Inr []) (\<lambda>color.
     bindE (if contains self ''scale''
            then bindE (W3DFeature_getitem self ''scale'') (\<lambda>sc.
                 Inr [Element ''Scale'' [] (PStr (py_str E sc)) []])
            else Inr []) (\<lambda>scale.
     bindE (if contains self ''sound_change''
            then bindE (W3DFeature_getitem self ''sound_change'') (\<lambda>snd_change.
                 SubElement_nondict ''Sound'' [PStr ''action'', snd_change])
            else Inr []) (\<lambda>sound.
     Inr (visible @ movement @ color @ scale @ sound))))))"

definition ObjectAction_toXML :: "env \<Rightarrow> feature \<Rightarrow> xml \<Rightarrow> error + (xml \<times> xml)" where
  "ObjectAction_toXML E self parent_root =
     bindE (W3DFeature_getitem self ''object_name'') (\<lambda>name.
     bindE (W3DFeature_getitem self ''duration'') (\<lambda>duration.
     bindE (transition_parts E self) (\<lambda>parts.
     bindE (if contains self ''link_change''
            then bindE (W3DFeature_getitem self ''link_change'') (\<lambda>l.
                 bindE (table_getitem link_xml_tags l) (\<lambda>t.
                 Inr [Element ''LinkChange'' [] PNone [Element t [] PNone []]]))
            else Inr []) (\<lambda>link.
     let change_root = Element ''ObjectChange'' [(''name'', name)] PNone
           [Element ''Transition'' [(''duration'', duration)] PNone (parts @ link)]
     in Inr (append_child parent_root change_root, change_root)))))"

definition GroupAction_toXML :: "env \<Rightarrow> feature \<Rightarrow> xml \<Rightarrow> error + (xml \<times> xml)" where
  "GroupAction_toXML E self parent_root =
     bindE (W3DFeature_getitem self ''group_name'') (\<lambda>name.
     bindE (if \<not> is_default self ''choose_random''
            then bindE (W3DFeature_getitem self ''choose_random'') (\<lambda>r.
                 bindE (bool2text E r) (\<lambda>t. Inr [(''random'', t)]))
            else Inr []) (\<lambda>random.
     bindE (W3DFeature_getitem self ''duration'') (\<lambda>duration.
     bindE (transition_parts E self) (\<lambda>parts.
     bindE (if contains self ''link_change''
            then bindE (W3DFeature_getitem self ''link_change'') (\<lambda>l.
                 Inr [Element ''LinkChange'' [] PNone
                   (if l = PStr ''Enable'' then [Element ''link_on'' [] PNone []]
                    else if l = PStr ''Disable'' then [Element ''link_off'' [] PNone []]
                    else if l = PStr ''Activate'' then [Element ''activate'' [] PNone []]
                    else if l = PStr ''Activate if enabled'' then [Element ''activate_if_on'' [] PNone []]
                    else [])])
            else Inr []) (\<lambda>link.
     let change_root = Element ''GroupRef'' ((''name'', name) # random) PNone
           [Element ''Transition'' [(''duration'', duration)] PNone (parts @ link)]
     in Inr (append_child parent_root change_root, change_root))))))"

definition TimelineAction_toXML :: "feature \<Rightarrow> xml \<Rightarrow> error + (xml \<times> xml)" where
  "TimelineAction_toXML self parent_root =
     bindE (try_except (W3DFeature_getitem self ''timeline_name'') is_KeyError
              (Inl (ConsistencyError ''TimelineAction must have timeline_name key set''))) (\<lambda>name.
     bindE (try_except (bindE (W3DFeature_getitem self ''change'') (table_getitem change_xml_tags))
              is_KeyError (Inl (ConsistencyError ''TimelineAction must have change key set''))) (\<lambda>t.
     let change_root = Element ''TimerChange'' [(''name'', name)] PNone [Element t [] PNone []]
     in Inr (append_child parent_root change_root, change_root)))"

definition SoundAction_toXML :: "feature \<Rightarrow> xml \<Rightarrow> error + (xml \<times> xml)" where
  "SoundAction_toXML self parent_root =
     bindE (try_except (W3DFeature_getitem self ''sound_name'') is_KeyError
              (Inl (ConsistencyError ''SoundAction must specify sound_name to act on''))) (\<lambda>name.
     bindE (if \<not> is_default self ''change''
            then bindE (W3DFeature_getitem self ''change'') (\<lambda>c. Inr [(''action'', c)])
            else Inr []) (\<lambda>action.
     let sound_root = Element ''SoundRef'' ((''name'', name) # action) PNone []
     in Inr (append_child parent_root sound_root, sound_root)))"

definition EventTriggerAction_toXML :: "feature \<Rightarrow> xml \<Rightarrow> error + (xml \<times> xml)" where
  "EventTriggerAction_toXML self parent_root =
     bindE (try_except
              (bindE (W3DFeature_getitem self ''trigger_name'') (\<lambda>name.
               bindE (W3DFeature_getitem self ''enable'') (\<lambda>enable.
               Inr (Element ''Event'' [(''name'', name), (''enable'', enable)] PNone []))))
              is_KeyError
              (Inl (ConsistencyError ''EventTriggerAction must specify both trigger_name and enable'')))
       (\<lambda>action_root. Inr (append_child parent_root action_root, action_root))"

definition MoveCaveAction_toXML :: "env \<Rightarrow> feature \<Rightarrow> xml \<Rightarrow> error + (xml \<times> xml)" where
  "MoveCaveAction_toXML E self parent_root =
     bindE (if \<not> is_default self ''duration''
            then bindE (W3DFeature_getitem self ''duration'') (\<lambda>d. Inr [(''duration'', PStr (py_str E d))])
            else Inr []) (\<lambda>duration.
     bindE (try_except (W3DFeature_getitem self ''relative'') is_KeyError
              (Inl (ConsistencyError (''MoveCaveAction must specify a value for '' @ [CHR 0x22] @ ''relative'' @ [CHR 0x22] @ '' key'')))) (\<lambda>relative.
     bindE (try_except
              (bindE (W3DFeature_getitem self ''placement'') (\<lambda>placement.
               CavePlacement_toXML E placement
                 (Element ''MoveCave'' duration PNone
                    [Element (if truthy E relative then ''Relative'' else ''Absolute'') [] PNone []])))
              is_KeyError
              (Inl (ConsistencyError (''MoveCaveAction must specify a value for '' @ [CHR 0x22] @ ''placement'' @ [CHR 0x22] @ '' key''))))
       (\<lambda>action_root. Inr (append_child parent_root action_root, action_root))))"

definition CaveResetAction_toXML :: "feature \<Rightarrow> xml \<Rightarrow> error + (xml \<times> xml)" where
  "CaveResetAction_toXML self parent_root =
     (let action_root = Element ''Restart'' [] PNone []
      in Inr (append_child parent_root action_root, action_root))"

section \<open>actions.py: fromXML\<close>

text \<open>
  The last loop of ObjectAction.fromXML and GroupAction.fromXML,
  \<^verbatim>\<open>for key, value in new_action.link_xml_tags\<close>, iterates the dict itself, so its
  keys; \<open>node\<close> is the result of \<^verbatim>\<open>trans_root.find("LinkChange")\<close>, on which
  \<^verbatim>\<open>find\<close> is called whether or not it is None.
\<close>

fun link_loop :: "xml option \<Rightarrow> feature \<Rightarrow> string list \<Rightarrow> error + feature" where
  "link_loop node new_action [] = Inr new_action"
| "link_loop node new_action (k # ks) =
     bindE (unpack_pair k) (\<lambda>kv.
       case node of
         None \<Rightarrow> Inl AttributeError
       | Some n \<Rightarrow>
           if xml_find n (snd kv) \<noteq> None then assign new_action ''link_change'' (PStr (fst kv))
           else link_loop node new_action ks)"

text \<open>The statements from \<^verbatim>\<open>trans_root = action_root.find("Transition")\<close> to the
  \<^verbatim>\<open>return\<close>, the same text in both classes.\<close>

definition transition_fromXML :: "env \<Rightarrow> feature \<Rightarrow> xml \<Rightarrow> error + pyobj" where
  "transition_fromXML E new_action0 action_root =
     bindE (case xml_find action_root ''Transition'' of
              None \<Rightarrow> Inl AttributeError | Some t \<Rightarrow> Inr t) (\<lambda>trans_root.
     bindE (if attrib_contains trans_root ''duration''
            then bindE (attrib_getitem trans_root ''duration'') (\<lambda>d.
                 bindE (py_float d) (\<lambda>f. assign new_action0 ''duration'' (PFloat f)))
            else Inr new_action0) (\<lambda>new_action1.
     bindE (case xml_find trans_root ''Visible'' of
              None \<Rightarrow> Inr new_action1
            | Some node \<Rightarrow> bindE (text2bool E (node_text node)) (assign new_action1 ''visible''))
       (\<lambda>new_action2.
     bindE (case xml_find trans_root ''MoveRel'' of
              Some node \<Rightarrow>
                bindE (assign new_action2 ''move_relative'' (PBool True)) (\<lambda>a. Inr (a, Some node))
            | None \<Rightarrow> Inr (new_action2, xml_find trans_root ''Movement'')) (\<lambda>moved.
     bindE (case snd moved of
              None \<Rightarrow> Inr (fst moved)
            | Some node \<Rightarrow>
                bindE (assign (fst moved) ''move_relative''
                         (dict_get (fst moved) ''move_relative'' (PBool False))) (\<lambda>a.
                  case xml_find node ''Placement'' of
                    None \<Rightarrow> Inl (BadCaveXML ''Movement or MoveRel node requires Placement child node'' [])
                  | Some place_root \<Rightarrow>
                      bindE (CavePlacement_fromXML E place_root) (assign a ''placement'')))
       (\<lambda>new_action3.
     bindE (case xml_find trans_root ''Color'' of
              None \<Rightarrow> Inr new_action3
            | Some node \<Rightarrow>
                try_except
                  (bindE (text2tuple_int E (node_text node)) (assign new_action3 ''color''))
                  is_InvalidArgument
                  (assign new_action3 ''color'' (PTuple [PInt 255, PInt 255, PInt 255])))
       (\<lambda>new_action4.
     bindE (case xml_find trans_root ''Scale'' of
              None \<Rightarrow> Inr new_action4
            | Some node \<Rightarrow>
                try_except
                  (bindE (text_strip node) (\<lambda>t.
                   bindE (py_float t) (\<lambda>f. assign new_action4 ''scale'' (PFloat f))))
                  is_TypeError
                  (assign new_action4 ''scale'' (PInt 1)))
       (\<lambda>new_action5.
     bindE (case xml_find trans_root ''Sound'' of
              None \<Rightarrow> Inr new_action5
            | Some node \<Rightarrow> bindE (text_strip node) (assign new_action5 ''sound_change''))
       (\<lambda>new_action6.
     bindE (link_loop (xml_find trans_root ''LinkChange'') new_action6 (map fst link_xml_tags))
       (\<lambda>new_action7. Inr (Instance new_action7))))))))))"

definition ObjectAction_fromXML :: "env \<Rightarrow> pyclass \<Rightarrow> xml \<Rightarrow> error + pyobj" where
  "ObjectAction_fromXML E action_class action_root =
     bindE (W3DFeature_init action_class [] []) (\<lambda>new_action.
     bindE (try_except
              (bindE (attrib_getitem action_root ''name'') (assign new_action ''object_name''))
              is_KeyError
              (Inl (BadCaveXML ''ObjectChange node must have name attribute set'' [])))
       (\<lambda>new_action1. transition_fromXML E new_action1 action_root))"

definition GroupAction_fromXML :: "env \<Rightarrow> pyclass \<Rightarrow> xml \<Rightarrow> error + pyobj" where
  "GroupAction_fromXML E action_class action_root =
     bindE (W3DFeature_init action_class [] []) (\<lambda>new_action.
     bindE (try_except
              (bindE (attrib_getitem action_root ''name'') (assign new_action ''group_name''))
              is_KeyError
              (Inl (BadCaveXML ''GroupRef node must have name attribute set'' [])))
       (\<lambda>new_action1.
     bindE (try_except
              (bindE (attrib_getitem action_root ''random'') (assign new_action1 ''choose_random''))
              is_KeyError
              (Inr new_action1))
       (\<lambda>new_action2. transition_fromXML E new_action2 action_root)))"

text \<open>
  TimelineAction.fromXML binds \<^verbatim>\<open>new_action = action_class\<close>, the class object and
  not a call of it. A class (its type is \<^verbatim>\<open>type\<close>) supports neither item assignment
  nor \<^verbatim>\<open>in\<close>: both raise TypeError.
\<close>

definition class_setitem :: "pyclass \<Rightarrow> string \<Rightarrow> pyval \<Rightarrow> error + pyclass" where
  "class_setitem c key val = Inl TypeError"

definition class_contains :: "pyclass \<Rightarrow> string \<Rightarrow> error + bool" where
  "class_contains c key = Inl TypeError"

fun change_loop :: "xml \<Rightarrow> pyclass \<Rightarrow> string list \<Rightarrow> error + pyclass" where
  "change_loop timer_change_root new_action [] = Inr new_action"
| "change_loop timer_change_root new_action (k # ks) =
     bindE (unpack_pair k) (\<lambda>kv.
     bindE (if xml_find timer_change_root (snd kv) \<noteq> None
            then class_setitem new_action ''change'' (PStr (fst kv))
            else Inr new_action) (\<lambda>new_action1.
     change_loop timer_change_root new_action1 ks))"

definition TimelineAction_fromXML :: "pyclass \<Rightarrow> xml \<Rightarrow> error + pyobj" where
  "TimelineAction_fromXML action_class timer_change_root =
     bindE (try_except
              (bindE (attrib_getitem timer_change_root ''name'')
                 (class_setitem action_class ''timeline_name''))
              is_KeyError
              (Inl (BadCaveXML ''TimerChange node must have name attribute set'' [])))
       (\<lambda>new_action.
     bindE (change_loop timer_change_root new_action (map fst change_xml_tags)) (\<lambda>new_action1.
     bindE (class_contains new_action1 ''change'') (\<lambda>has_change.
       if \<not> has_change
       then Inl (BadCaveXML ''TimerChange node must have child specifying timeline change'' [])
       else Inr (ClassObj new_action1))))"

definition SoundAction_fromXML :: "pyclass \<Rightarrow> xml \<Rightarrow> error + pyobj" where
  "SoundAction_fromXML action_class soundref_root =
     bindE (W3DFeature_init action_class [] []) (\<lambda>new_action.
     bindE (try_except
              (bindE (attrib_getitem soundref_root ''name'') (assign new_action ''sound_name''))
              is_KeyError
              (Inl (BadCaveXML ''SoundRef node must specify name attribute'' [])))
       (\<lambda>new_action1.
     bindE (if attrib_contains soundref_root ''action''
            then bindE (attrib_getitem soundref_root ''action'') (assign new_action1 ''change'')
            else Inr new_action1)
       (\<lambda>new_action2. Inr (Instance new_action2))))"

text \<open>EventTriggerAction.fromXML ends after its second \<^verbatim>\<open>try\<close> statement, without a
  \<^verbatim>\<open>return\<close>: the call gives \<^verbatim>\<open>None\<close>.\<close>

definition EventTriggerAction_fromXML :: "pyclass \<Rightarrow> xml \<Rightarrow> error + pyobj" where
  "EventTriggerAction_fromXML action_class event_root =
     bindE (W3DFeature_init action_class [] []) (\<lambda>new_action.
     bindE (try_except
              (bindE (attrib_getitem event_root ''name'') (assign new_action ''trigger_name''))
              is_KeyError
              (Inl (BadCaveXML ''Event node must specify name attribute'' [])))
       (\<lambda>new_action1.
     bindE (try_except
              (bindE (attrib_getitem event_root ''enable'') (assign new_action1 ''enable''))
              is_KeyError
              (Inl (BadCaveXML ''Event node must specify enable attribute'' [])))
       (\<lambda>new_action2. Inr NoneObj)))"

definition MoveCaveAction_fromXML :: "env \<Rightarrow> pyclass \<Rightarrow> xml \<Rightarrow> error + pyobj" where
  "MoveCaveAction_fromXML E action_class move_cave_root =
     bindE (W3DFeature_init action_class [] []) (\<lambda>new_action.
     bindE (if attrib_contains move_cave_root ''duration''
            then bindE (attrib_getitem move_cave_root ''duration'') (assign new_action ''duration'')
            else Inr new_action) (\<lambda>new_action1.
     bindE (if xml_find move_cave_root ''Relative'' \<noteq> None
            then assign new_action1 ''relative'' (PBool True)
            else if xml_find move_cave_root ''Absolute'' \<noteq> None
            then assign new_action1 ''relative'' (PBool False)
            else Inl (BadCaveXML ''MoveCave node must contain either Absolute or Relative child'' []))
       (\<lambda>new_action2.
       case xml_find move_cave_root ''Placement'' of
         None \<Rightarrow> Inl (BadCaveXML ''MoveCave node must contain Placement child node'' [])
       | Some place_node \<Rightarrow>
           bindE (CavePlacement_fromXML E place_node) (\<lambda>placement.
           bindE (assign new_action2 ''placement'' placement) (\<lambda>new_action3.
           Inr (Instance new_action3))))))"

definition CaveResetAction_fromXML :: "pyclass \<Rightarrow> xml \<Rightarrow> error + pyobj" where
  "CaveResetAction_fromXML action_class restart_root =
     bindE (W3DFeature_init action_class [] []) (\<lambda>new_action. Inr (Instance new_action))"

text \<open>
  The factory \<^verbatim>\<open>CaveAction.fromXML\<close>. The names ObjectAction, GroupAction and
  MoveCaveAction stand for the classes whose tables hold \<open>num\<close>, the value of
  \<^verbatim>\<open>IsNumeric(min_value=0)\<close>.
\<close>

definition CaveAction_fromXML :: "env \<Rightarrow> validator \<Rightarrow> xml \<Rightarrow> error + pyobj" where
  "CaveAction_fromXML E num action_root =
     (if tag action_root = ''ObjectChange''
      then ObjectAction_fromXML E (ObjectAction_class num num) action_root
      else if tag action_root = ''GroupRef''
      then GroupAction_fromXML E (GroupAction_class num num) action_root
      else if tag action_root = ''TimerChange''
      then TimelineAction_fromXML TimelineAction_class action_root
      else if tag action_root = ''SoundRef''
      then SoundAction_fromXML SoundAction_class action_root
      else if tag action_root = ''Event''
      then EventTriggerAction_fromXML EventTriggerAction_class action_root
      else if tag action_root = ''MoveCave''
      then MoveCaveAction_fromXML E (MoveCaveAction_class num) action_root
      else if tag action_root = ''Restart''
      then CaveResetAction_fromXML CaveResetAction_class action_root
      else Inl (BadCaveXML ''Indicated action {} is not a valid action type'' [PStr (tag action_root)]))"

section \<open>Validators\<close>

lemma numeric_loop_Cons: "numeric_loop (v # vs) = Inl TypeError"
  by (simp add: IsNumeric_init_def bindE_def)

lemma py_iter_error: "py_iter v = Inl e \<Longrightarrow> e = TypeError"
  by (cases v) auto

lemma py_len_py_iter: "py_iter v = Inr xs \<Longrightarrow> py_len v = Inr (int (length xs))"
  by (cases v) auto

text \<open>
  What IsNumericIterable computes: the first element already makes \<^verbatim>\<open>IsNumeric(value)\<close>
  raise TypeError, which the enclosing \<^verbatim>\<open>except TypeError\<close> turns into False. So the
  validator accepts exactly the empty iterables, and those only when no length or the
  length 0 is required.
\<close>

lemma IsNumericIterable_call_eq:
  "IsNumericIterable_call required_length v =
     Inr (py_iter v = Inr [] \<and> (required_length = None \<or> required_length = Some 0))"
proof (cases "py_iter v")
  case (Inl e)
  then have "e = TypeError" by (rule py_iter_error)
  with Inl show ?thesis
    by (simp add: IsNumericIterable_call_def bindE_def try_except_def)
next
  case (Inr xs)
  show ?thesis
  proof (cases xs)
    case Nil
    with Inr have "py_len v = Inr 0" using py_len_py_iter [of v xs] by simp
    with Inr Nil show ?thesis
      by (cases required_length) (auto simp: IsNumericIterable_call_def bindE_def try_except_def)
  next
    case (Cons y ys)
    with Inr show ?thesis
      by (simp add: IsNumericIterable_call_def bindE_def try_except_def IsNumeric_init_def)
  qed
qed

lemma IsNumericIterable_never_raises: "\<exists>b. validator_call (IsNumericIterable required_length) v = Inr b"
  by (simp add: IsNumericIterable_call_eq)

lemma AlwaysValid_accepts: "validator_call (AlwaysValid help_string) v = Inr True"
  by (simp add: AlwaysValid_call_def)

lemma not_a_float_literal_abc: "\<not> is_float_literal ''abc''"
  by (simp add: is_float_literal_def float_strip_def is_float_space_def drop_sign_def floatnumber_def
      number_part_def digitpart_def is_digit_def)

text \<open>
  C5. Claimed: every validator returns a boolean on every input and never raises, and
  IsNumeric on the non-numeric string "abc" returns False. In the code
  \<^verbatim>\<open>float("abc")\<close> raises ValueError, and IsNumeric catches TypeError only: the call
  raises ValueError.
\<close>

theorem IsNumeric_raises_on_text: "validator_call IsNumeric (PStr ''abc'') = Inl ValueError"
  by (simp add: IsNumeric_call_def not_a_float_literal_abc bindE_def try_except_def)

text \<open>Two more validators raise: CheckType on a value that is not a type (its
  \<^verbatim>\<open>isinstance\<close> arguments are swapped), OptionListValidator on an unhashable value.\<close>

lemma CheckType_raises: "validator_call (CheckType (PType TInt)) (PInt 5) = Inl TypeError"
  by (simp add: CheckType_call_def)

lemma OptionListValidator_raises:
  "validator_call (OptionListValidator [''Start'', ''Stop'']) (PList []) = Inl TypeError"
  by (simp add: OptionListValidator_call_def)

text \<open>
  C6. Claimed: IsNumericIterable(required_length) returns True exactly for an iterable whose
  elements all convert to float and whose length is the required one. In the code the list
  [1, 2, 3], three numbers, is rejected by IsNumericIterable(required_length=3).
\<close>

theorem IsNumericIterable_rejects_numbers:
  "validator_call (IsNumericIterable (Some 3)) (PList [PInt 1, PInt 2, PInt 3]) = Inr False"
  by (simp add: IsNumericIterable_call_eq)

section \<open>Features\<close>

text \<open>A raising \<^verbatim>\<open>__setitem__\<close> has written nothing.\<close>

lemma setitem_raise_unchanged:
  "fst (W3DFeature_setitem self key val) = Inl e \<Longrightarrow> snd (W3DFeature_setitem self key val) = self"
  by (auto simp: W3DFeature_setitem_def split: option.splits sum.splits if_splits)

text \<open>What \<^verbatim>\<open>__setitem__\<close> does when the key's validator returns: InvalidArgument for a
  key outside the table and for a validator returning False, the value stored for a
  validator returning True; and it returns normally in that last case only.\<close>

lemma setitem_when_validator_returns:
  "(argument_validators (feature_class self) key = None \<longrightarrow>
      (\<exists>m a. W3DFeature_setitem self key val = (Inl (InvalidArgument m a), self)))
   \<and> (\<forall>v. argument_validators (feature_class self) key = Some v \<and> validator_call v val = Inr False \<longrightarrow>
      (\<exists>m a. W3DFeature_setitem self key val = (Inl (InvalidArgument m a), self)))
   \<and> (\<forall>v. argument_validators (feature_class self) key = Some v \<and> validator_call v val = Inr True \<longrightarrow>
      W3DFeature_setitem self key val = (Inr (), self\<lparr>entries := (entries self)(key \<mapsto> val)\<rparr>))
   \<and> (fst (W3DFeature_setitem self key val) = Inr () \<longleftrightarrow>
      (\<exists>v. argument_validators (feature_class self) key = Some v \<and> validator_call v val = Inr True))
   \<and> (fst (W3DFeature_setitem self key val) \<noteq> Inr () \<longrightarrow> snd (W3DFeature_setitem self key val) = self)"
  by (auto simp: W3DFeature_setitem_def split: option.splits sum.splits)

text \<open>The exception of a validator that raises passes through \<^verbatim>\<open>__setitem__\<close>, which
  calls the validator outside any \<^verbatim>\<open>try\<close>.\<close>

lemma setitem_validator_exception:
  "argument_validators (feature_class self) key = Some v \<Longrightarrow> validator_call v val = Inl e \<Longrightarrow>
   W3DFeature_setitem self key val = (Inl e, self)"
  by (simp add: W3DFeature_setitem_def)

text \<open>
  C3. Claimed: for every key and value, \<^verbatim>\<open>set(key, value)\<close> either raises InvalidArgument
  (key not in the validator table, or value rejected) and leaves the record unchanged, or
  stores the value. In the code a third outcome exists: on a SoundAction,
  \<^verbatim>\<open>action["change"] = []\<close> raises TypeError (the option-list validator hashes the
  list), and on a feature whose \<^verbatim>\<open>duration\<close> validator is an IsNumeric object, as
  MoveCaveAction means it to be, \<^verbatim>\<open>action["duration"] = "abc"\<close> raises ValueError.
  Neither is InvalidArgument, and nothing is stored.
\<close>

theorem setitem_validator_raises:
  "W3DFeature_setitem \<lparr>feature_class = SoundAction_class, entries = Map.empty\<rparr> ''change'' (PList [])
     = (Inl TypeError, \<lparr>feature_class = SoundAction_class, entries = Map.empty\<rparr>)
   \<and> W3DFeature_setitem \<lparr>feature_class = MoveCaveAction_class IsNumeric, entries = Map.empty\<rparr>
        ''duration'' (PStr ''abc'')
     = (Inl ValueError, \<lparr>feature_class = MoveCaveAction_class IsNumeric, entries = Map.empty\<rparr>)"
  by (simp add: W3DFeature_setitem_def SoundAction_class_def MoveCaveAction_class_def
      OptionListValidator_call_def IsNumeric_call_def not_a_float_literal_abc bindE_def
      try_except_def)

text \<open>
  C4. A feature constructed without arguments has no key set. For a key that is not set,
  \<^verbatim>\<open>get(key)\<close> returns the default when the defaults table has the key and raises KeyError
  otherwise; \<^verbatim>\<open>is_default(key)\<close> holds exactly when the key is not set and the defaults
  table has it; and after a \<^verbatim>\<open>set(key, v)\<close> that returned normally \<^verbatim>\<open>is_default(key)\<close>
  is false.
\<close>

theorem default_fallback:
  "(W3DFeature_init c [] [] = Inr \<lparr>feature_class = c, entries = Map.empty\<rparr>)
   \<and> (entries self key = None \<longrightarrow>
        (\<forall>d. default_arguments (feature_class self) key = Some d \<longrightarrow> W3DFeature_getitem self key = Inr d)
      \<and> (default_arguments (feature_class self) key = None \<longrightarrow>
            W3DFeature_getitem self key = Inl (KeyError (PStr key))))
   \<and> (is_default self key \<longleftrightarrow>
        entries self key = None \<and> default_arguments (feature_class self) key \<noteq> None)
   \<and> (fst (W3DFeature_setitem self key val) = Inr () \<longrightarrow>
        \<not> is_default (snd (W3DFeature_setitem self key val)) key)"
  by (auto simp: W3DFeature_init_def W3DFeature_getitem_def W3DFeature_missing_def is_default_def
      contains_def W3DFeature_setitem_def split: option.splits sum.splits)

theorem default_fallback_witness:
  "W3DFeature_getitem \<lparr>feature_class = SoundAction_class, entries = Map.empty\<rparr> ''change'' = Inr (PStr ''Start'')
   \<and> W3DFeature_getitem \<lparr>feature_class = SoundAction_class, entries = Map.empty\<rparr> ''sound_name''
       = Inl (KeyError (PStr ''sound_name''))
   \<and> is_default \<lparr>feature_class = SoundAction_class, entries = Map.empty\<rparr> ''change''
   \<and> \<not> is_default \<lparr>feature_class = SoundAction_class, entries = Map.empty\<rparr> ''sound_name''
   \<and> fst (W3DFeature_setitem \<lparr>feature_class = SoundAction_class, entries = Map.empty\<rparr> ''change'' (PStr ''Stop'')) = Inr ()
   \<and> \<not> is_default (snd (W3DFeature_setitem \<lparr>feature_class = SoundAction_class, entries = Map.empty\<rparr>
          ''change'' (PStr ''Stop''))) ''change''"
  using default_fallback [of SoundAction_class "\<lparr>feature_class = SoundAction_class, entries = Map.empty\<rparr>"
      "''change''" "PStr ''Stop''"]
    default_fallback [of SoundAction_class "\<lparr>feature_class = SoundAction_class, entries = Map.empty\<rparr>"
      "''sound_name''" "PStr ''bell''"]
  by (simp add: SoundAction_class_def OptionListValidator_call_def W3DFeature_setitem_def)

section \<open>The class statements\<close>

text \<open>
  C10. The tables of ObjectAction, GroupAction and MoveCaveAction call
  \<^verbatim>\<open>IsNumeric(min_value=0)\<close>, and IsNumeric's constructor takes no argument: the call
  raises TypeError, so each of the three class statements raises TypeError, and so does any
  attempt to make an instance, whatever its arguments.
\<close>

theorem class_statements_fail:
  "IsNumeric_init [] [(''min_value'', PInt 0)] = Inl TypeError
   \<and> ObjectAction_statement = Inl TypeError
   \<and> GroupAction_statement = Inl TypeError
   \<and> MoveCaveAction_statement = Inl TypeError
   \<and> construct ObjectAction_statement args kwargs = Inl TypeError
   \<and> construct GroupAction_statement args kwargs = Inl TypeError
   \<and> construct MoveCaveAction_statement args kwargs = Inl TypeError"
  by (simp add: IsNumeric_init_def ObjectAction_statement_def GroupAction_statement_def
      MoveCaveAction_statement_def construct_def bindE_def)

section \<open>Deserialization\<close>

lemma bindE_raises: "(\<And>x. \<exists>e. f x = Inl e) \<Longrightarrow> \<exists>e. bindE m f = Inl e"
  by (cases m) (auto simp: bindE_def)

lemma init_empty: "W3DFeature_init c [] [] = Inr \<lparr>feature_class = c, entries = Map.empty\<rparr>"
  by (simp add: W3DFeature_init_def)

text \<open>The first key of \<^verbatim>\<open>link_xml_tags\<close> cannot be unpacked into two names.\<close>

lemma link_loop_raises: "link_loop node a (map fst link_xml_tags) = Inl ValueError"
  by (simp add: link_xml_tags_def unpack_pair_def bindE_def)

lemma link_step_raises: "\<exists>e. bindE (link_loop node a (map fst link_xml_tags)) f = Inl e"
  by (simp add: link_loop_raises bindE_def del: link_loop.simps)

lemma transition_fromXML_raises: "\<exists>e. transition_fromXML E a root = Inl e"
  unfolding transition_fromXML_def
  by (intro link_step_raises bindE_raises)

text \<open>Hence no call of ObjectAction.fromXML or GroupAction.fromXML returns, whatever the
  class tables, the collaborators and the node are.\<close>

lemma ObjectAction_fromXML_raises: "\<exists>e. ObjectAction_fromXML E action_class action_root = Inl e"
  unfolding ObjectAction_fromXML_def
  by (intro bindE_raises transition_fromXML_raises)

lemma GroupAction_fromXML_raises: "\<exists>e. GroupAction_fromXML E action_class action_root = Inl e"
  unfolding GroupAction_fromXML_def
  by (intro bindE_raises transition_fromXML_raises)

lemma TimelineAction_fromXML_raises: "\<exists>e. TimelineAction_fromXML action_class root = Inl e"
  by (simp add: TimelineAction_fromXML_def class_setitem_def attrib_getitem_def bindE_def
      try_except_def split: option.splits)

lemma TimelineAction_fromXML_TypeError:
  "TimelineAction_fromXML TimelineAction_class
     (Element ''TimerChange'' [(''name'', PStr ''intro'')] PNone [Element ''start'' [] PNone []])
   = Inl TypeError"
  by (simp add: TimelineAction_fromXML_def class_setitem_def attrib_getitem_def bindE_def
      try_except_def)

lemma EventTriggerAction_fromXML_returns_None:
  "map_of (attrib event_root) ''name'' = Some a \<Longrightarrow> map_of (attrib event_root) ''enable'' = Some b \<Longrightarrow>
   EventTriggerAction_fromXML EventTriggerAction_class event_root = Inr NoneObj"
  by (simp add: EventTriggerAction_fromXML_def init_empty assign_def W3DFeature_setitem_def
      EventTriggerAction_class_def attrib_getitem_def AlwaysValid_call_def bindE_def try_except_def)

lemma EventTriggerAction_fromXML_no_instance:
  "EventTriggerAction_fromXML action_class event_root \<noteq> Inr (Instance f)"
  by (simp add: EventTriggerAction_fromXML_def bindE_def split: sum.splits)

lemma float_bound_gt: "1 < float_overflow_bound"
  by (simp add: float_overflow_bound_def)

text \<open>
  C1. Claimed: an ObjectAction written with toXML and read back with ObjectAction.fromXML
  keeps every attribute that was set. In the code an ObjectAction with only
  \<^verbatim>\<open>object_name="Table"\<close> set serializes to
  \<^verbatim>\<open><ObjectChange name="Table"><Transition duration=1/></ObjectChange>\<close>, and
  ObjectAction.fromXML on that node raises (ValueError, from the loop over
  \<^verbatim>\<open>link_xml_tags\<close>, when the two numeric validators are IsNumeric objects) and returns
  no action.
\<close>

theorem ObjectAction_roundtrip_raises:
  "ObjectAction_toXML E
      \<lparr>feature_class = ObjectAction_class d s, entries = [''object_name'' \<mapsto> PStr ''Table'']\<rparr>
      parent_root
    = Inr (append_child parent_root
             (Element ''ObjectChange'' [(''name'', PStr ''Table'')] PNone
                [Element ''Transition'' [(''duration'', PInt 1)] PNone []]),
           Element ''ObjectChange'' [(''name'', PStr ''Table'')] PNone
             [Element ''Transition'' [(''duration'', PInt 1)] PNone []])
   \<and> (\<exists>e. ObjectAction_fromXML E (ObjectAction_class d s)
             (Element ''ObjectChange'' [(''name'', PStr ''Table'')] PNone
                [Element ''Transition'' [(''duration'', PInt 1)] PNone []]) = Inl e)
   \<and> ObjectAction_fromXML E (ObjectAction_class IsNumeric IsNumeric)
        (Element ''ObjectChange'' [(''name'', PStr ''Table'')] PNone
           [Element ''Transition'' [(''duration'', PInt 1)] PNone []]) = Inl ValueError"
proof (intro conjI)
  show "ObjectAction_toXML E
      \<lparr>feature_class = ObjectAction_class d s, entries = [''object_name'' \<mapsto> PStr ''Table'']\<rparr>
      parent_root
    = Inr (append_child parent_root
             (Element ''ObjectChange'' [(''name'', PStr ''Table'')] PNone
                [Element ''Transition'' [(''duration'', PInt 1)] PNone []]),
           Element ''ObjectChange'' [(''name'', PStr ''Table'')] PNone
             [Element ''Transition'' [(''duration'', PInt 1)] PNone []])"
    by (simp add: ObjectAction_toXML_def transition_parts_def W3DFeature_getitem_def
        W3DFeature_missing_def ObjectAction_class_def contains_def bindE_def Let_def)
  show "\<exists>e. ObjectAction_fromXML E (ObjectAction_class d s)
             (Element ''ObjectChange'' [(''name'', PStr ''Table'')] PNone
                [Element ''Transition'' [(''duration'', PInt 1)] PNone []]) = Inl e"
    by (rule ObjectAction_fromXML_raises)
  show "ObjectAction_fromXML E (ObjectAction_class IsNumeric IsNumeric)
        (Element ''ObjectChange'' [(''name'', PStr ''Table'')] PNone
           [Element ''Transition'' [(''duration'', PInt 1)] PNone []]) = Inl ValueError"
    by (simp add: ObjectAction_fromXML_def transition_fromXML_def init_empty assign_def
        W3DFeature_setitem_def ObjectAction_class_def attrib_getitem_def attrib_contains_def
        xml_find_def AlwaysValid_call_def IsNumeric_call_def float_bound_gt
        link_loop_raises bindE_def try_except_def del: link_loop.simps)
qed

text \<open>Serialization has its own slip: an ObjectAction with a \<^verbatim>\<open>sound_change\<close> cannot be
  written, since the Sound node is given a set as \<^verbatim>\<open>attrib\<close>.\<close>

lemma ObjectAction_toXML_sound_TypeError:
  "ObjectAction_toXML E
      \<lparr>feature_class = ObjectAction_class d s,
       entries = [''object_name'' \<mapsto> PStr ''Table'', ''sound_change'' \<mapsto> PStr ''Play Sound'']\<rparr>
      parent_root
    = Inl TypeError"
  by (simp add: ObjectAction_toXML_def transition_parts_def W3DFeature_getitem_def
      W3DFeature_missing_def ObjectAction_class_def contains_def SubElement_nondict_def bindE_def)

text \<open>
  C7. Claimed: EventTriggerAction.fromXML on an Event node with a name and an enable
  attribute returns an EventTriggerAction. In the code the method has no \<^verbatim>\<open>return\<close>:
  on \<^verbatim>\<open><Event name="door" enable="true"/>\<close> it returns None.
\<close>

theorem EventTriggerAction_fromXML_None:
  "EventTriggerAction_fromXML EventTriggerAction_class
     (Element ''Event'' [(''name'', PStr ''door''), (''enable'', PStr ''true'')] PNone [])
   = Inr NoneObj"
  by (simp add: EventTriggerAction_fromXML_def init_empty assign_def W3DFeature_setitem_def
      EventTriggerAction_class_def attrib_getitem_def AlwaysValid_call_def bindE_def try_except_def)

lemma not_a_float_literal_big: "\<not> is_float_literal ''big''"
  by (simp add: is_float_literal_def float_strip_def is_float_space_def drop_sign_def floatnumber_def
      number_part_def digitpart_def is_digit_def)

lemma py_strip_big: "py_strip ''big'' = ''big''"
  by (simp add: py_strip_def is_space_def)

text \<open>The color validator of ObjectAction rejects every value, the fallback
  (255, 255, 255) included.\<close>

lemma color_rejected:
  "assign \<lparr>feature_class = ObjectAction_class d s, entries = m\<rparr> ''color'' v
     = Inl (InvalidArgument ''{} is not a valid value for option {}'' [v, PStr ''color''])"
  by (simp add: assign_def W3DFeature_setitem_def ObjectAction_class_def IsNumericIterable_call_eq)

lemma object_name_accepted:
  "assign \<lparr>feature_class = ObjectAction_class d s, entries = Map.empty\<rparr> ''object_name'' v
     = Inr \<lparr>feature_class = ObjectAction_class d s, entries = [''object_name'' \<mapsto> v]\<rparr>"
  by (simp add: assign_def W3DFeature_setitem_def ObjectAction_class_def AlwaysValid_call_def)

text \<open>
  C9. Claimed: ObjectAction.fromXML replaces an unparsable Color by (255, 255, 255) and an
  absent or unparsable Scale text by 1, and completes without raising. In the code a Scale
  text "big" raises ValueError (only TypeError is caught), a Scale without text raises
  AttributeError, and a Color "not,a,color" raises as well: InvalidArgument from the
  assignment of the fallback when \<^verbatim>\<open>text2tuple\<close> returns or raises InvalidArgument,
  and otherwise the exception of \<^verbatim>\<open>text2tuple\<close>.
\<close>

theorem ObjectAction_fromXML_not_lenient:
  "ObjectAction_fromXML E (ObjectAction_class d s)
     (Element ''ObjectChange'' [(''name'', PStr ''Table'')] PNone
        [Element ''Transition'' [] PNone [Element ''Scale'' [] (PStr ''big'') []]])
     = Inl ValueError
   \<and> ObjectAction_fromXML E (ObjectAction_class d s)
     (Element ''ObjectChange'' [(''name'', PStr ''Table'')] PNone
        [Element ''Transition'' [] PNone [Element ''Scale'' [] PNone []]])
     = Inl AttributeError
   \<and> ObjectAction_fromXML E (ObjectAction_class d s)
     (Element ''ObjectChange'' [(''name'', PStr ''Table'')] PNone
        [Element ''Transition'' [] PNone [Element ''Color'' [] (PStr ''not,a,color'') []]])
     = Inl (case text2tuple_int E (PStr ''not,a,color'') of
              Inl e \<Rightarrow> if is_InvalidArgument e
                       then InvalidArgument ''{} is not a valid value for option {}''
                              [PTuple [PInt 255, PInt 255, PInt 255], PStr ''color'']
                       else e
            | Inr v \<Rightarrow> InvalidArgument ''{} is not a valid value for option {}''
                              [PTuple [PInt 255, PInt 255, PInt 255], PStr ''color''])"
proof (intro conjI)
  show "ObjectAction_fromXML E (ObjectAction_class d s)
     (Element ''ObjectChange'' [(''name'', PStr ''Table'')] PNone
        [Element ''Transition'' [] PNone [Element ''Scale'' [] (PStr ''big'') []]])
     = Inl ValueError"
    by (simp add: ObjectAction_fromXML_def transition_fromXML_def init_empty object_name_accepted
        attrib_getitem_def attrib_contains_def xml_find_def text_strip_def py_strip_big
        not_a_float_literal_big bindE_def try_except_def del: link_loop.simps)
  show "ObjectAction_fromXML E (ObjectAction_class d s)
     (Element ''ObjectChange'' [(''name'', PStr ''Table'')] PNone
        [Element ''Transition'' [] PNone [Element ''Scale'' [] PNone []]])
     = Inl AttributeError"
    by (simp add: ObjectAction_fromXML_def transition_fromXML_def init_empty object_name_accepted
        attrib_getitem_def attrib_contains_def xml_find_def text_strip_def
        bindE_def try_except_def del: link_loop.simps)
  show "ObjectAction_fromXML E (ObjectAction_class d s)
     (Element ''ObjectChange'' [(''name'', PStr ''Table'')] PNone
        [Element ''Transition'' [] PNone [Element ''Color'' [] (PStr ''not,a,color'') []]])
     = Inl (case text2tuple_int E (PStr ''not,a,color'') of
              Inl e \<Rightarrow> if is_InvalidArgument e
                       then InvalidArgument ''{} is not a valid value for option {}''
                              [PTuple [PInt 255, PInt 255, PInt 255], PStr ''color'']
                       else e
            | Inr v \<Rightarrow> InvalidArgument ''{} is not a valid value for option {}''
                              [PTuple [PInt 255, PInt 255, PInt 255], PStr ''color''])"
    by (simp add: ObjectAction_fromXML_def transition_fromXML_def init_empty object_name_accepted
        color_rejected attrib_getitem_def attrib_contains_def xml_find_def bindE_def
        try_except_def split: sum.splits del: link_loop.simps)
qed

section \<open>Serialization of an action with a required attribute missing\<close>

text \<open>
  C8. Claimed: toXML of any action variant with a required attribute never set raises
  ConsistencyError. In the code ObjectAction.toXML (and GroupAction.toXML) reads
  \<^verbatim>\<open>self["object_name"]\<close> outside any \<^verbatim>\<open>try\<close>: on an action with nothing set the
  KeyError of \<^verbatim>\<open>__missing__\<close> reaches the caller.
\<close>

theorem ObjectAction_toXML_KeyError:
  "ObjectAction_toXML E \<lparr>feature_class = ObjectAction_class d s, entries = Map.empty\<rparr> parent_root
     = Inl (KeyError (PStr ''object_name''))
   \<and> GroupAction_toXML E \<lparr>feature_class = GroupAction_class d s, entries = Map.empty\<rparr> parent_root
     = Inl (KeyError (PStr ''group_name''))"
  by (simp add: ObjectAction_toXML_def GroupAction_toXML_def W3DFeature_getitem_def
      W3DFeature_missing_def ObjectAction_class_def GroupAction_class_def bindE_def)

text \<open>The other variants with required attributes do turn the KeyError into a
  ConsistencyError.\<close>

lemma TimelineAction_toXML_ConsistencyError:
  "TimelineAction_toXML \<lparr>feature_class = TimelineAction_class, entries = Map.empty\<rparr> parent_root
     = Inl (ConsistencyError ''TimelineAction must have timeline_name key set'')
   \<and> TimelineAction_toXML
        \<lparr>feature_class = TimelineAction_class, entries = [''timeline_name'' \<mapsto> PStr ''intro'']\<rparr>
        parent_root
     = Inl (ConsistencyError ''TimelineAction must have change key set'')"
  by (simp add: TimelineAction_toXML_def W3DFeature_getitem_def W3DFeature_missing_def
      TimelineAction_class_def bindE_def try_except_def)

lemma SoundAction_toXML_ConsistencyError:
  "SoundAction_toXML \<lparr>feature_class = SoundAction_class, entries = Map.empty\<rparr> parent_root
     = Inl (ConsistencyError ''SoundAction must specify sound_name to act on'')"
  by (simp add: SoundAction_toXML_def W3DFeature_getitem_def W3DFeature_missing_def
      SoundAction_class_def bindE_def try_except_def)

lemma EventTriggerAction_toXML_ConsistencyError:
  "EventTriggerAction_toXML \<lparr>feature_class = EventTriggerAction_class, entries = Map.empty\<rparr> parent_root
     = Inl (ConsistencyError ''EventTriggerAction must specify both trigger_name and enable'')"
  by (simp add: EventTriggerAction_toXML_def W3DFeature_getitem_def W3DFeature_missing_def
      EventTriggerAction_class_def bindE_def try_except_def)

lemma MoveCaveAction_toXML_ConsistencyError:
  "\<exists>m. MoveCaveAction_toXML E \<lparr>feature_class = MoveCaveAction_class d, entries = Map.empty\<rparr> parent_root
     = Inl (ConsistencyError m)"
  by (simp add: MoveCaveAction_toXML_def W3DFeature_getitem_def W3DFeature_missing_def
      MoveCaveAction_class_def is_default_def contains_def bindE_def try_except_def)

section \<open>The factory\<close>

lemma CaveResetAction_fromXML_instance:
  "CaveResetAction_fromXML c n = Inr (Instance \<lparr>feature_class = c, entries = Map.empty\<rparr>)"
  by (simp add: CaveResetAction_fromXML_def init_empty bindE_def)

lemma SoundAction_fromXML_no_name:
  "map_of (attrib n) ''name'' = None \<Longrightarrow>
   SoundAction_fromXML c n = Inl (BadCaveXML ''SoundRef node must specify name attribute'' [])"
  by (simp add: SoundAction_fromXML_def init_empty attrib_getitem_def bindE_def try_except_def)

lemma SoundAction_fromXML_name:
  "map_of (attrib n) ''name'' = Some v \<Longrightarrow> map_of (attrib n) ''action'' = None \<Longrightarrow>
   SoundAction_fromXML SoundAction_class n
     = Inr (Instance \<lparr>feature_class = SoundAction_class, entries = [''sound_name'' \<mapsto> v]\<rparr>)"
  by (simp add: SoundAction_fromXML_def init_empty attrib_getitem_def attrib_contains_def
      assign_def W3DFeature_setitem_def SoundAction_class_def AlwaysValid_call_def
      bindE_def try_except_def)

lemma SoundAction_fromXML_action:
  "map_of (attrib n) ''name'' = Some v \<Longrightarrow> map_of (attrib n) ''action'' = Some (PStr a) \<Longrightarrow>
   a = ''Start'' \<or> a = ''Stop'' \<Longrightarrow>
   SoundAction_fromXML SoundAction_class n
     = Inr (Instance \<lparr>feature_class = SoundAction_class,
                      entries = [''sound_name'' \<mapsto> v, ''change'' \<mapsto> PStr a]\<rparr>)"
  by (auto simp: SoundAction_fromXML_def init_empty attrib_getitem_def attrib_contains_def
      assign_def W3DFeature_setitem_def SoundAction_class_def AlwaysValid_call_def
      OptionListValidator_call_def bindE_def try_except_def)

text \<open>What the factory does by its own text: the unknown tag, and the two variants whose
  \<^verbatim>\<open>fromXML\<close> returns an instance.\<close>

lemma factory_unknown_tag:
  "tag n \<notin> {''ObjectChange'', ''GroupRef'', ''TimerChange'', ''SoundRef'', ''Event'', ''MoveCave'',
              ''Restart''} \<Longrightarrow>
   CaveAction_fromXML E num n
     = Inl (BadCaveXML ''Indicated action {} is not a valid action type'' [PStr (tag n)])"
  by (simp add: CaveAction_fromXML_def)

lemma factory_Restart:
  "CaveAction_fromXML E num (Element ''Restart'' attrs txt kids)
     = Inr (Instance \<lparr>feature_class = CaveResetAction_class, entries = Map.empty\<rparr>)"
  by (simp add: CaveAction_fromXML_def CaveResetAction_fromXML_instance)

lemma factory_SoundRef:
  "CaveAction_fromXML E num (Element ''SoundRef'' [(''name'', PStr ''bell''), (''action'', PStr ''Stop'')] PNone [])
     = Inr (Instance \<lparr>feature_class = SoundAction_class,
                      entries = [''sound_name'' \<mapsto> PStr ''bell'', ''change'' \<mapsto> PStr ''Stop'']\<rparr>)"
  by (simp add: CaveAction_fromXML_def SoundAction_fromXML_action)

text \<open>A MoveCave node with a Relative and a Placement child and no duration gives an
  instance, once the placement is read.\<close>

lemma MoveCaveAction_fromXML_instance:
  "\<not> attrib_contains n ''duration'' \<Longrightarrow> xml_find n ''Relative'' = Some r \<Longrightarrow>
   xml_find n ''Placement'' = Some pl \<Longrightarrow> CavePlacement_fromXML E pl = Inr p \<Longrightarrow>
   MoveCaveAction_fromXML E (MoveCaveAction_class d) n
     = Inr (Instance \<lparr>feature_class = MoveCaveAction_class d,
                      entries = [''relative'' \<mapsto> PBool True, ''placement'' \<mapsto> p]\<rparr>)"
  by (simp add: MoveCaveAction_fromXML_def init_empty assign_def W3DFeature_setitem_def
      MoveCaveAction_class_def AlwaysValid_call_def bindE_def)

text \<open>For four of the seven tags the factory returns an instance for no node at all.\<close>

lemma factory_no_instance:
  assumes "tag n \<in> {''ObjectChange'', ''GroupRef'', ''TimerChange'', ''Event''}"
  shows "CaveAction_fromXML E num n \<noteq> Inr (Instance f)"
proof -
  from assms consider "tag n = ''ObjectChange''" | "tag n = ''GroupRef''"
    | "tag n = ''TimerChange''" | "tag n = ''Event''"
    by auto
  then show ?thesis
  proof cases
    case 1
    then have "CaveAction_fromXML E num n = ObjectAction_fromXML E (ObjectAction_class num num) n"
      by (simp add: CaveAction_fromXML_def)
    with ObjectAction_fromXML_raises [of E "ObjectAction_class num num" n] show ?thesis
      by auto
  next
    case 2
    then have "CaveAction_fromXML E num n = GroupAction_fromXML E (GroupAction_class num num) n"
      by (simp add: CaveAction_fromXML_def)
    with GroupAction_fromXML_raises [of E "GroupAction_class num num" n] show ?thesis
      by auto
  next
    case 3
    then have "CaveAction_fromXML E num n = TimelineAction_fromXML TimelineAction_class n"
      by (simp add: CaveAction_fromXML_def)
    with TimelineAction_fromXML_raises [of TimelineAction_class n] show ?thesis
      by auto
  next
    case 4
    then have "CaveAction_fromXML E num n = EventTriggerAction_fromXML EventTriggerAction_class n"
      by (simp add: CaveAction_fromXML_def)
    with EventTriggerAction_fromXML_no_instance [of EventTriggerAction_class n f] show ?thesis
      by simp
  qed
qed

text \<open>
  C2. Claimed: for a node with one of the seven known tags the factory returns an instance
  of the matching class (TimelineAction for TimerChange), and for any other tag it raises
  BadCaveXML naming the tag. In the code the factory hands a TimerChange node to
  TimelineAction.fromXML, which binds the class object where its siblings call the class:
  the item assignment on it raises TypeError. On the well-formed node
  \<^verbatim>\<open><TimerChange name="intro"><start/></TimerChange>\<close> the factory raises TypeError, and it
  returns for no TimerChange node.
\<close>

theorem factory_TimerChange_raises:
  "CaveAction_fromXML E num
     (Element ''TimerChange'' [(''name'', PStr ''intro'')] PNone [Element ''start'' [] PNone []])
     = Inl TypeError
   \<and> (\<exists>e. CaveAction_fromXML E num (Element ''TimerChange'' attrs txt kids) = Inl e)"
  by (simp add: CaveAction_fromXML_def TimelineAction_fromXML_TypeError TimelineAction_fromXML_raises)

end
